theory Spec2Isabelle
  imports Main "HOL-Library.Multiset"
begin

section \<open>Strings and the string primitives the services use\<close>

text \<open>
  Strings are \<open>char list\<close>. The services work on SQL text; the model covers the ASCII
  range: the case conversions act on the 26 letters, white space is the ASCII part
  of the class \<open>\s\<close> (tab, line feed, vertical tab, form feed, carriage return, space),
  line terminators are line feed and carriage return, and \<open>\w\<close> is
  letters, digits and the underscore.
\<close>

definition isSpace :: "char \<Rightarrow> bool" where
  "isSpace c \<longleftrightarrow> c \<in> set [CHR 0x09, CHR 0x0A, CHR 0x0B, CHR 0x0C, CHR 0x0D, CHR 0x20]"

definition isLineTerminator :: "char \<Rightarrow> bool" where
  "isLineTerminator c \<longleftrightarrow> c = CHR 0x0A \<or> c = CHR 0x0D"

definition lowerLetters :: string where
  "lowerLetters = ''abcdefghijklmnopqrstuvwxyz''"

definition upperLetters :: string where
  "upperLetters = ''ABCDEFGHIJKLMNOPQRSTUVWXYZ''"

definition digitChars :: string where
  "digitChars = ''0123456789''"

definition isDigit :: "char \<Rightarrow> bool" where
  "isDigit c \<longleftrightarrow> c \<in> set digitChars"

definition isWordChar :: "char \<Rightarrow> bool" where
  "isWordChar c \<longleftrightarrow> c \<in> set (lowerLetters @ upperLetters @ digitChars @ ''_'')"

definition toUpperChar :: "char \<Rightarrow> char" where
  "toUpperChar c = (case map_of (zip lowerLetters upperLetters) c of Some u \<Rightarrow> u | None \<Rightarrow> c)"

definition toLowerChar :: "char \<Rightarrow> char" where
  "toLowerChar c = (case map_of (zip upperLetters lowerLetters) c of Some l \<Rightarrow> l | None \<Rightarrow> c)"

definition toUpperCase :: "string \<Rightarrow> string" where
  "toUpperCase s = map toUpperChar s"

definition toLowerCase :: "string \<Rightarrow> string" where
  "toLowerCase s = map toLowerChar s"

text \<open>\<open>s.trim()\<close>: white space removed at both ends.\<close>

definition trim :: "string \<Rightarrow> string" where
  "trim s = rev (dropWhile isSpace (rev (dropWhile isSpace s)))"

text \<open>\<open>s.startsWith(p)\<close>, \<open>s.endsWith(p)\<close>, \<open>s.includes(p)\<close>.\<close>

definition startsWith :: "string \<Rightarrow> string \<Rightarrow> bool" where
  "startsWith s p \<longleftrightarrow> take (length p) s = p"

definition endsWith :: "string \<Rightarrow> string \<Rightarrow> bool" where
  "endsWith s p \<longleftrightarrow> length p \<le> length s \<and> drop (length s - length p) s = p"

fun includesStr :: "string \<Rightarrow> string \<Rightarrow> bool" where
  "includesStr [] p = (p = [])"
| "includesStr (c # cs) p = (startsWith (c # cs) p \<or> includesStr cs p)"

text \<open>
  \<open>s.replace(p, r)\<close> with a string pattern: only the first occurrence is replaced.
\<close>

fun replaceFirst :: "string \<Rightarrow> string \<Rightarrow> string \<Rightarrow> string" where
  "replaceFirst [] p r = (if p = [] then r else [])"
| "replaceFirst (c # cs) p r =
     (if startsWith (c # cs) p then r @ drop (length p) (c # cs)
      else c # replaceFirst cs p r)"

text \<open>
  \<open>s.split(/\s+/)\<close>: the pieces between the maximal runs of white space; a run at
  the start or at the end of \<open>s\<close> leaves an empty piece there.
\<close>

function splitWhitespace :: "string \<Rightarrow> string list" where
  "splitWhitespace s =
     (let piece = takeWhile (\<lambda>c. \<not> isSpace c) s;
          rest = dropWhile (\<lambda>c. \<not> isSpace c) s
      in if rest = [] then [piece]
         else piece # splitWhitespace (dropWhile isSpace rest))"
  by pat_completeness auto
termination
proof (relation "measure length")
  show "wf (measure length)" by simp
next
  fix s :: string and piece rest
  assume r: "rest = dropWhile (\<lambda>c. \<not> isSpace c) s" and ne: "rest \<noteq> []"
  have a: "length rest \<le> length s"
    unfolding r by (rule length_dropWhile_le)
  from ne obtain c cs where rc: "rest = c # cs" by (cases rest) auto
  have "isSpace c"
    using r rc dropWhile_eq_Cons_conv [of "\<lambda>c. \<not> isSpace c" s c cs] by simp
  then have "dropWhile isSpace rest = dropWhile isSpace cs" by (simp add: rc)
  then have "length (dropWhile isSpace rest) \<le> length cs"
    by (simp add: length_dropWhile_le)
  with a rc show "(dropWhile isSpace rest, s) \<in> measure length" by simp
qed

declare splitWhitespace.simps [simp del]

text \<open>
  \<open>v || d\<close> on an optional string: the default is taken when the value is missing
  or is the empty string.
\<close>

definition orDefault :: "string option \<Rightarrow> string \<Rightarrow> string" where
  "orDefault v d = (case v of None \<Rightarrow> d | Some x \<Rightarrow> if x = [] then d else x)"

text \<open>\<open>xs[i]\<close>: undefined beyond the end of the array.\<close>

definition index :: "'a list \<Rightarrow> nat \<Rightarrow> 'a option" where
  "index xs i = (if i < length xs then Some (xs ! i) else None)"

text \<open>
  A literal at the start of a text: the rest of the text after it. \<open>ciPrefix\<close> is the
  same under the flag \<open>i\<close>: the letters of the text are compared upper-cased.
\<close>

definition litPrefix :: "string \<Rightarrow> string \<Rightarrow> string option" where
  "litPrefix lit s = (if take (length lit) s = lit then Some (drop (length lit) s) else None)"

definition ciPrefix :: "string \<Rightarrow> string \<Rightarrow> string option" where
  "ciPrefix lit s =
     (if toUpperCase (take (length lit) s) = toUpperCase lit then Some (drop (length lit) s)
      else None)"

section \<open>The schema model (schemaParser)\<close>

record ForeignKey =
  fk_table :: string
  fk_column :: string

record TableField =
  field_name :: string
  field_type :: string
  nullable :: bool
  primaryKey :: bool
  foreignKey :: "ForeignKey option"
  defaultValue :: "string option"

record TableSchema =
  table_name :: string
  table_fields :: "TableField list"

record SchemaRelationship =
  fromTable :: string
  fromField :: string
  toTable :: string
  toField :: string

record ParsedSchema =
  tables :: "TableSchema list"
  relationships :: "SchemaRelationship list"

text \<open>
  Reading a property of \<open>undefined\<close> throws a TypeError; it is the only exception
  the parser's own code could raise.
\<close>

datatype error = TypeError

section \<open>SchemaParser\<close>

subsection \<open>normalizeType\<close>

definition typeMap :: "(string \<times> string) list" where
  "typeMap =
    [(''SERIAL'', ''int8''), (''BIGSERIAL'', ''int8''), (''INTEGER'', ''int8''),
     (''INT'', ''int8''), (''BIGINT'', ''int8''), (''VARCHAR'', ''text''),
     (''CHAR'', ''text''), (''TEXT'', ''text''), (''BOOLEAN'', ''boolean''),
     (''BOOL'', ''boolean''), (''TIMESTAMP'', ''timestamp''),
     (''TIMESTAMPTZ'', ''timestamp''), (''DATE'', ''timestamp''), (''TIME'', ''timestamp''),
     (''DECIMAL'', ''numeric''), (''NUMERIC'', ''numeric''), (''REAL'', ''numeric''),
     (''DOUBLE'', ''numeric''), (''FLOAT'', ''numeric''), (''UUID'', ''uuid''),
     (''JSON'', ''json''), (''JSONB'', ''json'')]"

text \<open>\<open>type.split('(')[0]\<close> is the text before the first opening parenthesis.\<close>

definition normalizeType :: "string \<Rightarrow> string" where
  "normalizeType type =
     (let baseType = takeWhile (\<lambda>c. c \<noteq> CHR ''('') type
      in orDefault (map_of typeMap baseType) ''text'')"

subsection \<open>The patterns of parseColumnDefinition\<close>

text \<open>
  \<open>/REFERENCES\s+(\w+)\s*\(\s*(\w+)\s*\)/\<close> at the start of a text. Each greedy
  repetition is followed by something its class excludes, so the repetition takes
  the whole run and no other split can match.
\<close>

definition referencesAt :: "string \<Rightarrow> (string \<times> string) option" where
  "referencesAt s =
     (case litPrefix ''REFERENCES'' s of
        None \<Rightarrow> None
      | Some s1 \<Rightarrow>
          if takeWhile isSpace s1 = [] then None
          else
            let s2 = dropWhile isSpace s1;
                tbl = takeWhile isWordChar s2;
                s3 = dropWhile isSpace (dropWhile isWordChar s2)
            in if tbl = [] then None
               else
                 (case litPrefix ''('' s3 of
                    None \<Rightarrow> None
                  | Some s4 \<Rightarrow>
                      let s5 = dropWhile isSpace s4;
                          col = takeWhile isWordChar s5;
                          s6 = dropWhile isSpace (dropWhile isWordChar s5)
                      in if col = [] then None
                         else
                           (case litPrefix '')'' s6 of
                              None \<Rightarrow> None
                            | Some _ \<Rightarrow> Some (tbl, col))))"

text \<open>\<open>upperDef.match(...)\<close>: the leftmost position where the pattern matches.\<close>

fun referencesMatch :: "string \<Rightarrow> (string \<times> string) option" where
  "referencesMatch [] = None"
| "referencesMatch (c # cs) =
     (case referencesAt (c # cs) of
        Some m \<Rightarrow> Some m
      | None \<Rightarrow> referencesMatch cs)"

text \<open>\<open>/DEFAULT\s+([^,\s]+)/\<close> at the start of a text, and its leftmost match.\<close>

definition defaultAt :: "string \<Rightarrow> string option" where
  "defaultAt s =
     (case litPrefix ''DEFAULT'' s of
        None \<Rightarrow> None
      | Some s1 \<Rightarrow>
          let tok = takeWhile (\<lambda>c. c \<noteq> CHR '','' \<and> \<not> isSpace c) (dropWhile isSpace s1)
          in if takeWhile isSpace s1 = [] \<or> tok = [] then None else Some tok)"

fun defaultMatch :: "string \<Rightarrow> string option" where
  "defaultMatch [] = None"
| "defaultMatch (c # cs) =
     (case defaultAt (c # cs) of
        Some tok \<Rightarrow> Some tok
      | None \<Rightarrow> defaultMatch cs)"

subsection \<open>parseColumnDefinition\<close>

text \<open>
  The result \<open>null\<close> is \<open>None\<close>. The two reads \<open>parts[0]\<close> and \<open>parts[1]\<close> would
  throw on a missing element; the check of \<open>parts.length\<close> stands before them.
\<close>

definition parseColumnDefinition :: "string \<Rightarrow> error + TableField option" where
  "parseColumnDefinition columnDef =
     (if startsWith (toUpperCase columnDef) ''CONSTRAINT'' \<or>
         startsWith (toUpperCase columnDef) ''PRIMARY KEY'' \<or>
         startsWith (toUpperCase columnDef) ''FOREIGN KEY''
      then Inr None
      else
        let parts = splitWhitespace columnDef
        in if length parts < 2 then Inr None
           else
             (case (index parts 0, index parts 1) of
                (Some p0, Some p1) \<Rightarrow>
                  let name = toLowerCase p0;
                      type = normalizeType (toUpperCase p1);
                      upperDef = toUpperCase columnDef;
                      nullable0 = (\<not> includesStr upperDef ''NOT NULL'');
                      primaryKey0 = includesStr upperDef ''PRIMARY KEY'';
                      serial = (type = ''SERIAL'' \<or> type = ''BIGSERIAL'')
                  in Inr (Some
                       \<lparr>field_name = name,
                        field_type = type,
                        nullable = (if serial then False else nullable0),
                        primaryKey = (if serial then True else primaryKey0),
                        foreignKey =
                          (case referencesMatch upperDef of
                             None \<Rightarrow> None
                           | Some (tbl, col) \<Rightarrow>
                               Some \<lparr>fk_table = toLowerCase tbl, fk_column = toLowerCase col\<rparr>),
                        defaultValue = defaultMatch upperDef\<rparr>)
              | _ \<Rightarrow> Inl TypeError))"

subsection \<open>splitColumnDefinitions\<close>

text \<open>
  The loop over the characters, with its two variables \<open>current\<close> and
  \<open>parenCount\<close>. A comma at count 0 ends the clause only when the clause so far is
  not blank; otherwise the comma is appended like any other character.
\<close>

fun splitLoop :: "string \<Rightarrow> string \<Rightarrow> int \<Rightarrow> string list" where
  "splitLoop [] current parenCount = (if trim current \<noteq> [] then [trim current] else [])"
| "splitLoop (char # rest) current parenCount =
     (if char = CHR ''('' then splitLoop rest (current @ [char]) (parenCount + 1)
      else if char = CHR '')'' then splitLoop rest (current @ [char]) (parenCount - 1)
      else if char = CHR '','' \<and> parenCount = 0 \<and> trim current \<noteq> []
        then trim current # splitLoop rest [] parenCount
      else splitLoop rest (current @ [char]) parenCount)"

definition splitColumnDefinitions :: "string \<Rightarrow> string list" where
  "splitColumnDefinitions columnDefs = splitLoop columnDefs [] 0"

subsection \<open>parseColumnDefinitions\<close>

text \<open>
  The fields of a body and, for each field with a foreign key, the triple
  (fromField, toTable, toField).
\<close>

fun parseColumns :: "string list \<Rightarrow> error + (TableField list \<times> (string \<times> string \<times> string) list)" where
  "parseColumns [] = Inr ([], [])"
| "parseColumns (column # columns) =
     (case parseColumnDefinition (trim column) of
        Inl e \<Rightarrow> Inl e
      | Inr None \<Rightarrow> parseColumns columns
      | Inr (Some field) \<Rightarrow>
          (case parseColumns columns of
             Inl e \<Rightarrow> Inl e
           | Inr (fs, rels) \<Rightarrow>
               Inr (field # fs,
                    (case foreignKey field of
                       None \<Rightarrow> rels
                     | Some fk \<Rightarrow> (field_name field, fk_table fk, fk_column fk) # rels))))"

definition parseColumnDefinitions ::
    "string \<Rightarrow> error + (TableField list \<times> (string \<times> string \<times> string) list)" where
  "parseColumnDefinitions columnDefs = parseColumns (splitColumnDefinitions columnDefs)"

subsection \<open>The text cleaning of parseSQL\<close>

text \<open>
  \<open>sql.replace(/--.*$/gm, '')\<close>: from each \<open>--\<close> the text up to, and without, the
  next line terminator is removed. The line terminator stays, and the search goes on
  from it.
\<close>

function stripComments :: "string \<Rightarrow> string" where
  "stripComments [] = []"
| "stripComments [c] = [c]"
| "stripComments (c # d # cs) =
     (if c = CHR ''-'' \<and> d = CHR ''-''
      then stripComments (dropWhile (\<lambda>x. \<not> isLineTerminator x) cs)
      else c # stripComments (d # cs))"
  by pat_completeness auto
termination
  by (relation "measure length") (auto simp: length_dropWhile_le less_Suc_eq_le le_SucI)

text \<open>\<open>.replace(/\s+/g, ' ')\<close>: every maximal run of white space becomes one space.\<close>

function collapseWhitespace :: "string \<Rightarrow> string" where
  "collapseWhitespace [] = []"
| "collapseWhitespace (c # cs) =
     (if isSpace c then CHR '' '' # collapseWhitespace (dropWhile isSpace cs)
      else c # collapseWhitespace cs)"
  by pat_completeness auto
termination
  by (relation "measure length") (auto simp: length_dropWhile_le less_Suc_eq_le)

definition cleanSQL :: "string \<Rightarrow> string" where
  "cleanSQL sql = trim (collapseWhitespace (stripComments sql))"

subsection \<open>The CREATE TABLE pattern\<close>

text \<open>
  \<open>(.*?)\);\<close> at the start of a text: the lazy body is the shortest run of
  characters other than line terminators that is followed by \<open>);\<close>. The result is
  the body and the text after the semicolon.
\<close>

fun lazyBody :: "string \<Rightarrow> (string \<times> string) option" where
  "lazyBody [] = None"
| "lazyBody (c # cs) =
     (case litPrefix '');'' (c # cs) of
        Some rest \<Rightarrow> Some ([], rest)
      | None \<Rightarrow>
          if isLineTerminator c then None
          else (case lazyBody cs of
                  None \<Rightarrow> None
                | Some (body, rest) \<Rightarrow> Some (c # body, rest)))"

text \<open>
  \<open>/CREATE\s+TABLE\s+(\w+)\s*\((.*?)\);/gi\<close> at the start of a text: the table
  name, the body and the text after the match. As in \<open>referencesAt\<close>, what follows
  a greedy repetition is excluded by its class, so each takes its whole run.
\<close>

definition createTableAt :: "string \<Rightarrow> (string \<times> string \<times> string) option" where
  "createTableAt s =
     (case ciPrefix ''CREATE'' s of
        None \<Rightarrow> None
      | Some s1 \<Rightarrow>
          if takeWhile isSpace s1 = [] then None
          else
            (case ciPrefix ''TABLE'' (dropWhile isSpace s1) of
               None \<Rightarrow> None
             | Some s2 \<Rightarrow>
                 if takeWhile isSpace s2 = [] then None
                 else
                   let s3 = dropWhile isSpace s2;
                       tableName = takeWhile isWordChar s3;
                       s4 = dropWhile isSpace (dropWhile isWordChar s3)
                   in if tableName = [] then None
                      else
                        (case litPrefix ''('' s4 of
                           None \<Rightarrow> None
                         | Some s5 \<Rightarrow>
                             (case lazyBody s5 of
                                None \<Rightarrow> None
                              | Some (body, rest) \<Rightarrow> Some (tableName, body, rest)))))"

text \<open>
  The loop \<open>while ((match = createTableRegex.exec(cleanSQL)) !== null)\<close>: each call
  finds the leftmost match at or after the end of the previous one. The list holds
  the groups 1 and 2 of the matches in order.
\<close>

function execAll :: "string \<Rightarrow> (string \<times> string) list" where
  "execAll s =
     (case createTableAt s of
        Some (tableName, body, rest) \<Rightarrow> (tableName, body) # execAll rest
      | None \<Rightarrow> (case s of [] \<Rightarrow> [] | _ # cs \<Rightarrow> execAll cs))"
  by pat_completeness auto
termination
proof (relation "measure length")
  show "wf (measure length)" by simp
next
  fix s :: string and x2 tableName y body rest
  assume m: "createTableAt s = Some x2" and x2: "(tableName, y) = x2" and y: "(body, rest) = y"
  have lazy: "length r < length t" if "lazyBody t = Some (b, r)" for t b r
    using that
  proof (induction t arbitrary: b r)
    case Nil
    then show ?case by simp
  next
    case (Cons c cs)
    show ?case
    proof (cases "litPrefix '');'' (c # cs)")
      case (Some rest')
      with Cons.prems have "r = rest'" by simp
      moreover from Some have "length rest' < length (c # cs)"
        by (auto simp: litPrefix_def split: if_splits)
      ultimately show ?thesis by simp
    next
      case None
      with Cons.prems obtain b' where "lazyBody cs = Some (b', r)"
        by (auto split: if_splits option.splits)
      from Cons.IH [OF this] show ?thesis by simp
    qed
  qed
  from m x2 y have "createTableAt s = Some (tableName, body, rest)" by simp
  then obtain s1 s2 s5 where
    a: "ciPrefix ''CREATE'' s = Some s1" and
    b: "ciPrefix ''TABLE'' (dropWhile isSpace s1) = Some s2" and
    c: "litPrefix ''('' (dropWhile isSpace (dropWhile isWordChar (dropWhile isSpace s2))) = Some s5" and
    d: "lazyBody s5 = Some (body, rest)"
    by (auto simp: createTableAt_def Let_def split: option.splits if_splits)
  have "length rest < length s5" using d by (rule lazy)
  also have "length s5 \<le> length (dropWhile isSpace (dropWhile isWordChar (dropWhile isSpace s2)))"
    using c by (auto simp: litPrefix_def split: if_splits)
  also have "\<dots> \<le> length (dropWhile isWordChar (dropWhile isSpace s2))"
    by (rule length_dropWhile_le)
  also have "\<dots> \<le> length (dropWhile isSpace s2)"
    by (rule length_dropWhile_le)
  also have "\<dots> \<le> length s2"
    by (rule length_dropWhile_le)
  also have "\<dots> \<le> length (dropWhile isSpace s1)"
    using b by (auto simp: ciPrefix_def split: if_splits)
  also have "\<dots> \<le> length s1"
    by (rule length_dropWhile_le)
  also have "\<dots> \<le> length s"
    using a by (auto simp: ciPrefix_def split: if_splits)
  finally show "(rest, s) \<in> measure length" by simp
next
  fix s :: string and x21 x22
  assume "s = x21 # x22"
  then show "(x22, s) \<in> measure length" by simp
qed

declare execAll.simps [simp del]

subsection \<open>detectImplicitRelationships\<close>

text \<open>
  \<open>Map.prototype.set\<close> and \<open>get\<close> on a map that iterates in insertion order: a key
  that is set again keeps its place and takes the new value.
\<close>

fun mapSet :: "('k \<times> 'v) list \<Rightarrow> 'k \<Rightarrow> 'v \<Rightarrow> ('k \<times> 'v) list" where
  "mapSet [] k v = [(k, v)]"
| "mapSet ((k', v') # m) k v = (if k' = k then (k, v) # m else (k', v') # mapSet m k v)"

definition mapGet :: "('k \<times> 'v) list \<Rightarrow> 'k \<Rightarrow> 'v option" where
  "mapGet m k = map_of m k"

text \<open>The first loop: \<open>tableMap\<close> and \<open>tableNameVariations\<close>.\<close>

definition variationsOf :: "string \<Rightarrow> string list" where
  "variationsOf n = [n, butlast n, n @ ''_id'', butlast n @ ''_id'']"

fun buildMaps ::
    "TableSchema list \<Rightarrow> (string \<times> string) list \<Rightarrow> (string \<times> string list) list \<Rightarrow>
     (string \<times> string) list \<times> (string \<times> string list) list" where
  "buildMaps [] tableMap tableNameVariations = (tableMap, tableNameVariations)"
| "buildMaps (t # ts) tableMap tableNameVariations =
     (case find primaryKey (table_fields t) of
        None \<Rightarrow> buildMaps ts tableMap tableNameVariations
      | Some pkField \<Rightarrow>
          buildMaps ts
            (mapSet tableMap (table_name t) (field_name pkField))
            (mapSet tableNameVariations (table_name t) (variationsOf (table_name t))))"

text \<open>
  The loop \<open>for (const [tableName, variations] of tableNameVariations)\<close> for one
  field: the field, with its foreign key set when a relationship is added, and the
  list of relationships. \<open>if (pkField)\<close> is false for a missing or an empty name,
  and then the loop goes on to the next table.
\<close>

fun matchTables ::
    "(string \<times> string) list \<Rightarrow> string \<Rightarrow> string \<Rightarrow> (string \<times> string list) list \<Rightarrow>
     TableField \<Rightarrow> SchemaRelationship list \<Rightarrow> TableField \<times> SchemaRelationship list" where
  "matchTables tableMap fromName potentialTableName [] field rels = (field, rels)"
| "matchTables tableMap fromName potentialTableName ((tableName, variations) # rest) field rels =
     (if list_ex (\<lambda>variation. variation = potentialTableName \<or>
                               variation = potentialTableName @ ''s'' \<or>
                               variation = field_name field) variations
      then
        (case mapGet tableMap tableName of
           None \<Rightarrow> matchTables tableMap fromName potentialTableName rest field rels
         | Some pkField \<Rightarrow>
             if pkField = [] then matchTables tableMap fromName potentialTableName rest field rels
             else if list_ex (\<lambda>rel. fromTable rel = fromName \<and>
                                      fromField rel = field_name field \<and>
                                      toTable rel = tableName) rels
               then (field, rels)
             else (field\<lparr>foreignKey := Some \<lparr>fk_table = tableName, fk_column = pkField\<rparr>\<rparr>,
                   rels @ [\<lparr>fromTable = fromName, fromField = field_name field,
                            toTable = tableName, toField = pkField\<rparr>]))
      else matchTables tableMap fromName potentialTableName rest field rels)"

definition inferField ::
    "(string \<times> string) list \<Rightarrow> (string \<times> string list) list \<Rightarrow> string \<Rightarrow>
     TableField \<Rightarrow> SchemaRelationship list \<Rightarrow> TableField \<times> SchemaRelationship list" where
  "inferField tableMap tableNameVariations fromName field rels =
     (if foreignKey field \<noteq> None then (field, rels)
      else if endsWith (field_name field) ''_id'' \<and> \<not> primaryKey field
        then matchTables tableMap fromName (replaceFirst (field_name field) ''_id'' [])
               tableNameVariations field rels
      else (field, rels))"

text \<open>\<open>fromTable.fields.forEach\<close> and \<open>tables.forEach\<close>, with the list of relationships passed on.\<close>

fun inferFields ::
    "(string \<times> string) list \<Rightarrow> (string \<times> string list) list \<Rightarrow> string \<Rightarrow>
     TableField list \<Rightarrow> SchemaRelationship list \<Rightarrow> TableField list \<times> SchemaRelationship list" where
  "inferFields tableMap tableNameVariations fromName [] rels = ([], rels)"
| "inferFields tableMap tableNameVariations fromName (f # fs) rels =
     (case inferField tableMap tableNameVariations fromName f rels of
        (f', rels') \<Rightarrow>
          (case inferFields tableMap tableNameVariations fromName fs rels' of
             (fs', rels'') \<Rightarrow> (f' # fs', rels'')))"

fun inferTables ::
    "(string \<times> string) list \<Rightarrow> (string \<times> string list) list \<Rightarrow>
     TableSchema list \<Rightarrow> SchemaRelationship list \<Rightarrow> TableSchema list \<times> SchemaRelationship list" where
  "inferTables tableMap tableNameVariations [] rels = ([], rels)"
| "inferTables tableMap tableNameVariations (t # ts) rels =
     (case inferFields tableMap tableNameVariations (table_name t) (table_fields t) rels of
        (fs', rels') \<Rightarrow>
          (case inferTables tableMap tableNameVariations ts rels' of
             (ts', rels'') \<Rightarrow> (t\<lparr>table_fields := fs'\<rparr> # ts', rels'')))"

definition detectImplicitRelationships ::
    "TableSchema list \<Rightarrow> SchemaRelationship list \<Rightarrow> ParsedSchema" where
  "detectImplicitRelationships tbls rels =
     (case buildMaps tbls [] [] of
        (tableMap, tableNameVariations) \<Rightarrow>
          (case inferTables tableMap tableNameVariations tbls rels of
             (tbls', rels') \<Rightarrow> \<lparr>tables = tbls', relationships = rels'\<rparr>))"

subsection \<open>parseSQL\<close>

text \<open>
  The body of the loop for each match: the table with its fields, and the explicit
  relationships of its fields, in the order of the matches.
\<close>

fun parseMatches ::
    "(string \<times> string) list \<Rightarrow> error + (TableSchema list \<times> SchemaRelationship list)" where
  "parseMatches [] = Inr ([], [])"
| "parseMatches ((m1, m2) # ms) =
     (case parseColumnDefinitions m2 of
        Inl e \<Rightarrow> Inl e
      | Inr (fs, colRels) \<Rightarrow>
          (case parseMatches ms of
             Inl e \<Rightarrow> Inl e
           | Inr (tbls, rels) \<Rightarrow>
               Inr (\<lparr>table_name = toLowerCase m1, table_fields = fs\<rparr> # tbls,
                    map (\<lambda>(ff, tt, tf). \<lparr>fromTable = toLowerCase m1, fromField = ff,
                                          toTable = tt, toField = tf\<rparr>) colRels @ rels)))"

definition parseSQL :: "string \<Rightarrow> error + ParsedSchema" where
  "parseSQL sql =
     (case parseMatches (execAll (cleanSQL sql)) of
        Inl e \<Rightarrow> Inl e
      | Inr (tbls, rels) \<Rightarrow> Inr (detectImplicitRelationships tbls rels))"

section \<open>SQLSyntaxMapper\<close>

text \<open>
  The configuration of a provider. \<open>varchar\<close> takes an optional length, with
  the default 255 when it is undefined; \<open>foreignKey\<close> takes the referenced table and
  column. Lengths are integers, written in decimal.
\<close>

function showNat :: "nat \<Rightarrow> string" where
  "showNat n = (if n < 10 then [digitChars ! n] else showNat (n div 10) @ [digitChars ! (n mod 10)])"
  by pat_completeness auto
termination
  by (relation "measure id") auto

declare showNat.simps [simp del]

definition showInt :: "int \<Rightarrow> string" where
  "showInt i = (if i < 0 then ''-'' @ showNat (nat (- i)) else showNat (nat i))"

record AutoIncrement =
  ai_integerType :: string
  ai_syntax :: string

record DataTypes =
  dt_serial :: string
  dt_text :: string
  dt_integer :: string
  dt_boolean :: string
  dt_timestamp :: string
  dt_decimal :: string
  dt_varchar :: "int option \<Rightarrow> string"

record Constraints =
  c_primaryKey :: string
  c_notNull :: string
  c_unique :: string
  c_foreignKey :: "string \<Rightarrow> string \<Rightarrow> string"

record Functions =
  fn_now :: string
  fn_uuid :: string

record DatabaseSyntaxConfig =
  autoIncrement :: AutoIncrement
  dataTypes :: DataTypes
  constraints :: Constraints
  sqlFunctions :: Functions

definition varcharN :: "int option \<Rightarrow> string" where
  "varcharN len = ''VARCHAR('' @ showInt (case len of None \<Rightarrow> 255 | Some n \<Rightarrow> n) @ '')''"

definition referencesClause :: "string \<Rightarrow> string \<Rightarrow> string" where
  "referencesClause referencedTable referencedColumn =
     ''REFERENCES '' @ referencedTable @ ''('' @ referencedColumn @ '')''"

definition stdConstraints :: Constraints where
  "stdConstraints =
     \<lparr>c_primaryKey = ''PRIMARY KEY'', c_notNull = ''NOT NULL'', c_unique = ''UNIQUE'',
      c_foreignKey = referencesClause\<rparr>"

definition postgresqlConfig :: DatabaseSyntaxConfig where
  "postgresqlConfig =
     \<lparr>autoIncrement = \<lparr>ai_integerType = ''INTEGER'', ai_syntax = ''SERIAL PRIMARY KEY''\<rparr>,
      dataTypes = \<lparr>dt_serial = ''SERIAL'', dt_text = ''TEXT'', dt_integer = ''INTEGER'',
                   dt_boolean = ''BOOLEAN'', dt_timestamp = ''TIMESTAMP'',
                   dt_decimal = ''DECIMAL'', dt_varchar = varcharN\<rparr>,
      constraints = stdConstraints,
      sqlFunctions = \<lparr>fn_now = ''NOW()'', fn_uuid = ''gen_random_uuid()''\<rparr>\<rparr>"

definition mysqlConfig :: DatabaseSyntaxConfig where
  "mysqlConfig =
     \<lparr>autoIncrement = \<lparr>ai_integerType = ''INT'', ai_syntax = ''INT AUTO_INCREMENT PRIMARY KEY''\<rparr>,
      dataTypes = \<lparr>dt_serial = ''INT AUTO_INCREMENT'', dt_text = ''TEXT'', dt_integer = ''INT'',
                   dt_boolean = ''BOOLEAN'', dt_timestamp = ''TIMESTAMP'',
                   dt_decimal = ''DECIMAL'', dt_varchar = varcharN\<rparr>,
      constraints = stdConstraints,
      sqlFunctions = \<lparr>fn_now = ''NOW()'', fn_uuid = ''UUID()''\<rparr>\<rparr>"

definition sqliteConfig :: DatabaseSyntaxConfig where
  "sqliteConfig =
     \<lparr>autoIncrement = \<lparr>ai_integerType = ''INTEGER'',
                        ai_syntax = ''INTEGER PRIMARY KEY AUTOINCREMENT''\<rparr>,
      dataTypes = \<lparr>dt_serial = ''INTEGER PRIMARY KEY AUTOINCREMENT'', dt_text = ''TEXT'',
                   dt_integer = ''INTEGER'', dt_boolean = ''INTEGER'', dt_timestamp = ''TEXT'',
                   dt_decimal = ''REAL'', dt_varchar = (\<lambda>len. ''TEXT'')\<rparr>,
      constraints = stdConstraints,
      sqlFunctions = \<lparr>fn_now = ''datetime('' @ [CHR 0x27] @ ''now'' @ [CHR 0x27] @ '')'',
                   fn_uuid = ''lower(hex(randomblob(16)))''\<rparr>\<rparr>"

definition supabaseConfig :: DatabaseSyntaxConfig where
  "supabaseConfig =
     postgresqlConfig\<lparr>dataTypes :=
       (dataTypes postgresqlConfig)\<lparr>dt_timestamp := ''TIMESTAMP WITH TIME ZONE''\<rparr>\<rparr>"

text \<open>
  The keys the table \<open>DATABASE_SYNTAX\<close> declares. The entries
  \<open>planetscale\<close> and \<open>mysql-local\<close> are written out in the source with the values of \<open>mysql\<close>,
  \<open>postgres-local\<close> with those of \<open>postgresql\<close>, and \<open>supabase\<close> with those of
  \<open>postgresql\<close> but for the timestamp.
\<close>

definition DATABASE_SYNTAX :: "(string \<times> DatabaseSyntaxConfig) list" where
  "DATABASE_SYNTAX =
     [(''postgresql'', postgresqlConfig),
      (''mysql'', mysqlConfig),
      (''sqlite'', sqliteConfig),
      (''supabase'', supabaseConfig),
      (''planetscale'', mysqlConfig),
      (''postgres-local'', postgresqlConfig),
      (''mysql-local'', mysqlConfig)]"

text \<open>
  The table is an object literal, and so is the table \<open>typeMap\<close> of mapDataType:
  \<open>table[key]\<close> also finds the properties every object inherits from
  \<open>Object.prototype\<close>. Their values are functions, and the prototype itself for
  \<open>__proto__\<close>: all of them truthy, none of them a string, and none with a
  property \<open>autoIncrement\<close>, \<open>dataTypes\<close> or \<open>constraints\<close>. (The table of
  normalizeType is only read with an upper-cased type, and every inherited name
  has a lower-case letter.)
\<close>

definition inheritedNames :: "string list" where
  "inheritedNames =
     [''constructor'', ''hasOwnProperty'', ''isPrototypeOf'', ''propertyIsEnumerable'',
      ''toLocaleString'', ''toString'', ''valueOf'', ''__proto__'',
      ''__defineGetter__'', ''__defineSetter__'', ''__lookupGetter__'', ''__lookupSetter__'']"

text \<open>
  What \<open>DATABASE_SYNTAX[providerKey]\<close> finds: a configuration under a declared
  key, an inherited value under an inherited name, and otherwise nothing
  (\<open>undefined\<close>).
\<close>

datatype SyntaxEntry = Config DatabaseSyntaxConfig | Inherited

definition syntaxLookup :: "string \<Rightarrow> SyntaxEntry option" where
  "syntaxLookup providerKey =
     (case map_of DATABASE_SYNTAX providerKey of
        Some config \<Rightarrow> Some (Config config)
      | None \<Rightarrow> if providerKey \<in> set inheritedNames then Some Inherited else None)"

text \<open>
  getSyntaxConfig falls back to the entry \<open>postgresql\<close> only when the lookup finds
  nothing; an inherited value is truthy and is returned as it is.
\<close>

definition getSyntaxConfig :: "string \<Rightarrow> SyntaxEntry" where
  "getSyntaxConfig provider =
     (case syntaxLookup provider of
        None \<Rightarrow> Config postgresqlConfig
      | Some config \<Rightarrow> config)"

text \<open>
  \<open>config.autoIncrement.p\<close>, \<open>config.dataTypes.p\<close> and \<open>config.constraints.p\<close>:
  on an inherited value the first property is \<open>undefined\<close>, and reading \<open>p\<close> of
  it throws a TypeError.
\<close>

definition autoIncrementOf :: "SyntaxEntry \<Rightarrow> error + AutoIncrement" where
  "autoIncrementOf config = (case config of Config c \<Rightarrow> Inr (autoIncrement c) | Inherited \<Rightarrow> Inl TypeError)"

definition dataTypesOf :: "SyntaxEntry \<Rightarrow> error + DataTypes" where
  "dataTypesOf config = (case config of Config c \<Rightarrow> Inr (dataTypes c) | Inherited \<Rightarrow> Inl TypeError)"

definition constraintsOf :: "SyntaxEntry \<Rightarrow> error + Constraints" where
  "constraintsOf config = (case config of Config c \<Rightarrow> Inr (constraints c) | Inherited \<Rightarrow> Inl TypeError)"

text \<open>A result passed on to the next step; an exception ends the call.\<close>

definition andThen :: "error + 'a \<Rightarrow> ('a \<Rightarrow> error + 'b) \<Rightarrow> error + 'b" where
  "andThen r f = (case r of Inl e \<Rightarrow> Inl e | Inr x \<Rightarrow> f x)"

fun mapResult :: "('a \<Rightarrow> error + 'b) \<Rightarrow> 'a list \<Rightarrow> error + 'b list" where
  "mapResult f [] = Inr []"
| "mapResult f (x # xs) =
     andThen (f x) (\<lambda>y. andThen (mapResult f xs) (\<lambda>ys. Inr (y # ys)))"

text \<open>
  \<open>lowerType.match(/varchar\((\d+)\)/)\<close>: the digits of the leftmost match, and
  \<open>parseInt\<close> of a run of digits.
\<close>

definition varcharAt :: "string \<Rightarrow> string option" where
  "varcharAt s =
     (case litPrefix ''varchar('' s of
        None \<Rightarrow> None
      | Some s1 \<Rightarrow>
          if takeWhile isDigit s1 = [] then None
          else (case litPrefix '')'' (dropWhile isDigit s1) of
                  None \<Rightarrow> None
                | Some _ \<Rightarrow> Some (takeWhile isDigit s1)))"

fun varcharMatch :: "string \<Rightarrow> string option" where
  "varcharMatch [] = None"
| "varcharMatch (c # cs) =
     (case varcharAt (c # cs) of
        Some ds \<Rightarrow> Some ds
      | None \<Rightarrow> varcharMatch cs)"

definition digitValue :: "char \<Rightarrow> int" where
  "digitValue c = int (length (takeWhile (\<lambda>d. d \<noteq> c) digitChars))"

definition parseInt :: "string \<Rightarrow> int" where
  "parseInt ds = foldl (\<lambda>n c. 10 * n + digitValue c) 0 ds"

text \<open>
  The table \<open>typeMap\<close> of mapDataType: each generic type with the property of
  \<open>dataTypes\<close> it names. All of them hold strings.
\<close>

definition dataTypeMap :: "(string \<times> (DataTypes \<Rightarrow> string)) list" where
  "dataTypeMap =
     [(''text'', dt_text), (''string'', dt_text), (''int'', dt_integer),
      (''int8'', dt_integer), (''integer'', dt_integer), (''bool'', dt_boolean),
      (''boolean'', dt_boolean), (''timestamp'', dt_timestamp),
      (''datetime'', dt_timestamp), (''decimal'', dt_decimal), (''numeric'', dt_decimal)]"

text \<open>
  \<open>optLength\<close> is \<open>options?.length\<close>, \<open>None\<close> when it is undefined. In the last
  step \<open>mappedType && typeof config.dataTypes[mappedType] === 'string'\<close> reads
  \<open>config.dataTypes\<close> whenever \<open>typeMap[lowerType]\<close> is truthy: for a declared type,
  whose property holds a string, and for an inherited name, under which a
  configuration holds no string, so that the type is returned upper-cased.
\<close>

definition mapDataType :: "string \<Rightarrow> string \<Rightarrow> int option \<Rightarrow> error + string" where
  "mapDataType genericType provider optLength =
     (let config = getSyntaxConfig provider;
          lowerType = toLowerCase genericType
      in if lowerType = ''serial'' \<or> (lowerType = ''integer'' \<and> optLength = Some (- 1))
           then andThen (dataTypesOf config) (\<lambda>dts. Inr (dt_serial dts))
         else if startsWith lowerType ''varchar''
           then andThen (dataTypesOf config) (\<lambda>dts. Inr (dt_varchar dts
                  (case varcharMatch lowerType of
                     Some ds \<Rightarrow> Some (parseInt ds)
                   | None \<Rightarrow> optLength)))
         else (case map_of dataTypeMap lowerType of
                 Some mappedType \<Rightarrow> andThen (dataTypesOf config) (\<lambda>dts. Inr (mappedType dts))
               | None \<Rightarrow>
                   if lowerType \<in> set inheritedNames
                   then andThen (dataTypesOf config) (\<lambda>dts. Inr (toUpperCase genericType))
                   else Inr (toUpperCase genericType)))"

section \<open>DiagramService\<close>

text \<open>
  The diagram data. The position of a table on the canvas is left out: no SQL
  depends on it.
\<close>

record DiagramField =
  df_name :: string
  df_type :: string
  isPrimaryKey :: bool
  isForeignKey :: bool
  df_nullable :: bool

record DiagramTable =
  tbl_id :: string
  tbl_name :: string
  tbl_fields :: "DiagramField list"
  incoming :: nat
  outgoing :: nat

record DiagramRelationship =
  rel_id :: string
  rel_fromTable :: string
  rel_fromField :: string
  rel_toTable :: string
  rel_toField :: string

record DiagramData =
  d_tables :: "DiagramTable list"
  d_relationships :: "DiagramRelationship list"

definition updateFromSchema :: "TableSchema list \<Rightarrow> SchemaRelationship list \<Rightarrow> DiagramData" where
  "updateFromSchema tbls rels =
     \<lparr>d_tables =
        map (\<lambda>t. \<lparr>tbl_id = table_name t,
                  tbl_name = table_name t,
                  tbl_fields =
                    map (\<lambda>f. \<lparr>df_name = field_name f, df_type = field_type f,
                              isPrimaryKey = primaryKey f,
                              isForeignKey = (foreignKey f \<noteq> None),
                              df_nullable = nullable f\<rparr>) (table_fields t),
                  incoming = length (filter (\<lambda>rel. toTable rel = table_name t) rels),
                  outgoing = length (filter (\<lambda>rel. fromTable rel = table_name t) rels)\<rparr>) tbls,
      d_relationships =
        map (\<lambda>rel. \<lparr>rel_id = fromTable rel @ ''_'' @ fromField rel @ ''_'' @ toTable rel @ ''_'' @
                               toField rel,
                    rel_fromTable = fromTable rel, rel_fromField = fromField rel,
                    rel_toTable = toTable rel, rel_toField = toField rel\<rparr>) rels\<rparr>"

text \<open>\<open>xs.join(sep)\<close>.\<close>

fun joinWith :: "string \<Rightarrow> string list \<Rightarrow> string" where
  "joinWith sep [] = []"
| "joinWith sep [x] = x"
| "joinWith sep (x # y # ys) = x @ sep @ joinWith sep (y # ys)"

text \<open>The text of one column in exportSchemaAsSQL.\<close>

definition fieldDefinition ::
    "string \<Rightarrow> DiagramRelationship list \<Rightarrow> DiagramTable \<Rightarrow> DiagramField \<Rightarrow> error + string" where
  "fieldDefinition provider rels tbl field =
     (let syntaxConfig = getSyntaxConfig provider;
          d0 = ''    '' @ df_name field
      in andThen
           (if isPrimaryKey field
            then (if toLowerCase (df_type field) = ''int8'' \<or>
                     toLowerCase (df_type field) = ''integer'' \<or>
                     toLowerCase (df_type field) = ''serial''
                  then andThen (autoIncrementOf syntaxConfig)
                         (\<lambda>ai. Inr (d0 @ '' '' @ ai_syntax ai))
                  else andThen (mapDataType (df_type field) provider None)
                         (\<lambda>mappedType. andThen (constraintsOf syntaxConfig)
                            (\<lambda>cs. Inr (d0 @ '' '' @ mappedType @ '' '' @ c_primaryKey cs))))
            else andThen (mapDataType (df_type field) provider None)
                   (\<lambda>mappedType. Inr (d0 @ '' '' @ mappedType)))
           (\<lambda>d1. andThen
              (if \<not> df_nullable field \<and> \<not> isPrimaryKey field
               then andThen (constraintsOf syntaxConfig) (\<lambda>cs. Inr (d1 @ '' '' @ c_notNull cs))
               else Inr d1)
              (\<lambda>d2. case find (\<lambda>rel. rel_fromTable rel = tbl_name tbl \<and>
                                      rel_fromField rel = df_name field) rels of
                       None \<Rightarrow> Inr d2
                     | Some relationship \<Rightarrow>
                         andThen (constraintsOf syntaxConfig)
                           (\<lambda>cs. Inr (d2 @ '' '' @ c_foreignKey cs (rel_toTable relationship)
                                                      (rel_toField relationship))))))"

definition createStatement ::
    "string \<Rightarrow> DiagramRelationship list \<Rightarrow> DiagramTable \<Rightarrow> error + string" where
  "createStatement provider rels tbl =
     andThen (mapResult (fieldDefinition provider rels tbl) (tbl_fields tbl))
       (\<lambda>fieldDefs. Inr (''CREATE TABLE IF NOT EXISTS '' @ tbl_name tbl @ '' (\<newline>'' @
                          joinWith '',\<newline>'' fieldDefs @ ''\<newline>);''))"

definition exportSchemaAsSQL :: "string \<Rightarrow> DiagramData \<Rightarrow> error + string" where
  "exportSchemaAsSQL provider diagramData =
     (if length (d_tables diagramData) = 0 then Inr []
      else andThen
             (mapResult (createStatement provider (d_relationships diagramData))
                (d_tables diagramData))
             (\<lambda>sqlStatements. Inr (joinWith ''\<newline>\<newline>'' sqlStatements)))"

section \<open>The pipeline and the notions the properties are stated with\<close>

text \<open>
  Parsing a text and exporting the parsed schema again, as the application does
  with the SQL it receives: parseSQL, updateFromSchema, exportSchemaAsSQL.
\<close>

definition parseAndExport :: "string \<Rightarrow> string \<Rightarrow> error + string" where
  "parseAndExport provider sql =
     andThen (parseSQL sql)
       (\<lambda>sch. exportSchemaAsSQL provider (updateFromSchema (tables sch) (relationships sch)))"

text \<open>The round trip: the export of a diagram, parsed and exported again.\<close>

definition exportParseExport :: "string \<Rightarrow> DiagramData \<Rightarrow> error + string" where
  "exportParseExport provider diagramData =
     andThen (exportSchemaAsSQL provider diagramData) (parseAndExport provider)"

text \<open>
  The raw type token of a column clause: its second piece, upper-cased, before any
  opening parenthesis (what normalizeType looks up).
\<close>

definition rawType :: "string \<Rightarrow> string" where
  "rawType columnDef =
     (case index (splitWhitespace columnDef) 1 of
        None \<Rightarrow> []
      | Some p1 \<Rightarrow> takeWhile (\<lambda>c. c \<noteq> CHR ''('') (toUpperCase p1))"

text \<open>
  The fields of a schema, each with the name of its table; the fields a relationship
  matches; the relationships a field matches.
\<close>

definition fieldOccurrences :: "TableSchema list \<Rightarrow> (string \<times> TableField) list" where
  "fieldOccurrences tbls = concat (map (\<lambda>t. map (\<lambda>f. (table_name t, f)) (table_fields t)) tbls)"

definition matches :: "SchemaRelationship \<Rightarrow> string \<times> TableField \<Rightarrow> bool" where
  "matches r tf \<longleftrightarrow>
     fst tf = fromTable r \<and> field_name (snd tf) = fromField r \<and>
     foreignKey (snd tf) = Some \<lparr>fk_table = toTable r, fk_column = toField r\<rparr>"

definition matchingFields :: "ParsedSchema \<Rightarrow> SchemaRelationship \<Rightarrow> (string \<times> TableField) list" where
  "matchingFields sch r = filter (matches r) (fieldOccurrences (tables sch))"

definition matchingRelationships ::
    "ParsedSchema \<Rightarrow> string \<times> TableField \<Rightarrow> SchemaRelationship list" where
  "matchingRelationships sch tf = filter (\<lambda>r. matches r tf) (relationships sch)"

definition consistent :: "ParsedSchema \<Rightarrow> bool" where
  "consistent sch \<longleftrightarrow>
     list_all (\<lambda>r. length (matchingFields sch r) = 1) (relationships sch) \<and>
     list_all (\<lambda>tf. length (matchingRelationships sch tf) = 1)
       (filter (\<lambda>tf. foreignKey (snd tf) \<noteq> None) (fieldOccurrences (tables sch)))"

text \<open>
  The relationship a field with a foreign key stands for, the relationships all the
  fields of a schema stand for, and the pair of names that identifies a field.
\<close>

definition relationshipOf :: "string \<times> TableField \<Rightarrow> SchemaRelationship list" where
  "relationshipOf tf =
     (case foreignKey (snd tf) of
        None \<Rightarrow> []
      | Some fk \<Rightarrow> [\<lparr>fromTable = fst tf, fromField = field_name (snd tf),
                      toTable = fk_table fk, toField = fk_column fk\<rparr>])"

definition declaredRelationships :: "TableSchema list \<Rightarrow> SchemaRelationship list" where
  "declaredRelationships tbls = concat (map relationshipOf (fieldOccurrences tbls))"

definition occKey :: "string \<times> TableField \<Rightarrow> string \<times> string" where
  "occKey tf = (fst tf, field_name (snd tf))"

definition distinctNames :: "ParsedSchema \<Rightarrow> bool" where
  "distinctNames sch \<longleftrightarrow>
     distinct (map table_name (tables sch)) \<and>
     list_all (\<lambda>t. distinct (map field_name (table_fields t))) (tables sch)"

text \<open>
  The specification's reading of the split of a body: the segments between the
  commas met at depth 0 of the running parenthesis count, blank ones included.
\<close>

fun spec_segments :: "string \<Rightarrow> string \<Rightarrow> int \<Rightarrow> string list" where
  "spec_segments [] current depth = [current]"
| "spec_segments (c # cs) current depth =
     (if c = CHR ''('' then spec_segments cs (current @ [c]) (depth + 1)
      else if c = CHR '')'' then spec_segments cs (current @ [c]) (depth - 1)
      else if c = CHR '','' \<and> depth = 0 then current # spec_segments cs [] depth
      else spec_segments cs (current @ [c]) depth)"

definition spec_topLevelSegments :: "string \<Rightarrow> string list" where
  "spec_topLevelSegments body = spec_segments body [] 0"



text \<open>The data of the examples: one table \<open>users\<close> with an integer primary key.\<close>

definition usersDiagram :: DiagramData where
  "usersDiagram =
     updateFromSchema
       [\<lparr>table_name = ''users'',
         table_fields = [\<lparr>field_name = ''id'', field_type = ''int8'', nullable = False,
                          primaryKey = True, foreignKey = None, defaultValue = None\<rparr>]\<rparr>] []"

section \<open>Facts about the parser\<close>

subsection \<open>Types and column clauses\<close>

lemma normalizeType_range:
  "normalizeType t \<in> set [''int8'', ''text'', ''boolean'', ''timestamp'', ''numeric'', ''uuid'', ''json'']"
proof (cases "map_of typeMap (takeWhile (\<lambda>c. c \<noteq> CHR ''('') t)")
  case None
  then show ?thesis by (simp add: normalizeType_def orDefault_def)
next
  case (Some v)
  then have "(takeWhile (\<lambda>c. c \<noteq> CHR ''('') t, v) \<in> set typeMap"
    by (rule map_of_SomeD)
  then have "v \<in> set (map snd typeMap)"
    by force
  then have "v \<in> set [''int8'', ''text'', ''boolean'', ''timestamp'', ''numeric'', ''uuid'', ''json'']"
    by (simp add: typeMap_def)
  with Some show ?thesis
    by (auto simp: normalizeType_def orDefault_def)
qed

lemma normalizeType_not_serial:
  "normalizeType t \<noteq> ''SERIAL''" "normalizeType t \<noteq> ''BIGSERIAL''"
  using normalizeType_range [of t] by auto

lemma parseColumnDefinition_field:
  assumes "parseColumnDefinition columnDef = Inr (Some f)"
  shows "nullable f = (\<not> includesStr (toUpperCase columnDef) ''NOT NULL'')"
    and "primaryKey f = includesStr (toUpperCase columnDef) ''PRIMARY KEY''"
    and "defaultValue f = defaultMatch (toUpperCase columnDef)"
  using assms
  by (auto simp: parseColumnDefinition_def Let_def normalizeType_not_serial
      split: if_splits option.splits)

subsection \<open>No read of a missing element\<close>





subsection \<open>Text before a match\<close>


lemma createTableAt_if_not_exists:
  "createTableAt (''CREATE TABLE IF NOT EXISTS '' @ rest) = None"
  by (simp add: createTableAt_def ciPrefix_def litPrefix_def toUpperCase_def toUpperChar_def
      lowerLetters_def upperLetters_def isSpace_def isWordChar_def digitChars_def)

subsection \<open>The split of a body and the specification's segments\<close>

lemma splitLoop_length:
  "length (splitLoop s cur d) \<le> length (spec_segments s cur' d)"
  by (induction s arbitrary: cur cur' d) (auto simp: le_SucI)

lemma splitLoop_segments:
  "\<forall>seg \<in> set (spec_segments s cur d). trim seg \<noteq> [] \<Longrightarrow>
   splitLoop s cur d = map trim (spec_segments s cur d)"
  by (induction s arbitrary: cur d) auto

subsection \<open>Upper-casing and the DEFAULT pattern\<close>

lemma toUpperChar_cases:
  "toUpperChar c = c \<or> (c \<in> set lowerLetters \<and> toUpperChar c \<in> set upperLetters)"
proof (cases "map_of (zip lowerLetters upperLetters) c")
  case None
  then show ?thesis by (simp add: toUpperChar_def)
next
  case (Some u)
  then have "(c, u) \<in> set (zip lowerLetters upperLetters)" by (rule map_of_SomeD)
  then have "c \<in> set lowerLetters" "u \<in> set upperLetters"
    by (auto dest: set_zip_leftD set_zip_rightD)
  with Some show ?thesis by (simp add: toUpperChar_def)
qed

lemma letters_not_space:
  "x \<in> set lowerLetters \<Longrightarrow> \<not> isSpace x \<and> x \<noteq> CHR '',''"
  "x \<in> set upperLetters \<Longrightarrow> \<not> isSpace x \<and> x \<noteq> CHR '',''"
  by (auto simp: isSpace_def lowerLetters_def upperLetters_def)

lemma toUpperChar_space [simp]: "isSpace (toUpperChar c) = isSpace c"
  using toUpperChar_cases [of c] letters_not_space [of c] letters_not_space [of "toUpperChar c"]
  by metis

lemma toUpperChar_comma [simp]: "(toUpperChar c = CHR '','') = (c = CHR '','')"
  using toUpperChar_cases [of c] letters_not_space [of c] letters_not_space [of "toUpperChar c"]
  by metis




subsection \<open>Relationships and foreign keys\<close>

lemma matchTables_result:
  assumes "foreignKey f = None"
    and "matchTables tm fromName pot tv f rels = (f', rels')"
  shows "rels' = rels @ relationshipOf (fromName, f') \<and> field_name f' = field_name f"
  using assms
proof (induction tv)
  case Nil
  then show ?case by (simp add: relationshipOf_def)
next
  case (Cons p tv)
  obtain tableName variations where p: "p = (tableName, variations)" by (cases p)
  show ?case
    using Cons.prems Cons.IH
    by (auto simp: p relationshipOf_def split: if_splits option.splits)
qed

lemma inferField_result:
  assumes "inferField tm tv fromName f rels = (f', rels')"
  shows "mset rels' + mset (relationshipOf (fromName, f)) =
         mset rels + mset (relationshipOf (fromName, f')) \<and> field_name f' = field_name f"
proof (cases "foreignKey f")
  case None
  show ?thesis
  proof (cases "endsWith (field_name f) ''_id'' \<and> \<not> primaryKey f")
    case True
    with None assms have "matchTables tm fromName (replaceFirst (field_name f) ''_id'' []) tv f rels = (f', rels')"
      by (simp add: inferField_def)
    from matchTables_result [OF None this] None show ?thesis
      by (simp add: relationshipOf_def)
  next
    case False
    with None assms show ?thesis by (auto simp: inferField_def)
  qed
next
  case (Some fk)
  with assms show ?thesis by (simp add: inferField_def)
qed

lemma inferFields_result:
  assumes "inferFields tm tv fromName fs rels = (fs', rels')"
  shows "mset rels' + mset (concat (map (\<lambda>f. relationshipOf (fromName, f)) fs)) =
         mset rels + mset (concat (map (\<lambda>f. relationshipOf (fromName, f)) fs')) \<and>
         map field_name fs' = map field_name fs"
  using assms
proof (induction fs arbitrary: rels fs' rels')
  case Nil
  then show ?case by simp
next
  case (Cons f fs)
  obtain f1 r1 where a: "inferField tm tv fromName f rels = (f1, r1)"
    by (cases "inferField tm tv fromName f rels")
  obtain fs2 r2 where b: "inferFields tm tv fromName fs r1 = (fs2, r2)"
    by (cases "inferFields tm tv fromName fs r1")
  from Cons.prems a b have e: "fs' = f1 # fs2" "rels' = r2" by simp_all
  from inferField_result [OF a] Cons.IH [OF b] show ?case
    unfolding e by (simp add: ac_simps) (metis (no_types, lifting) add.assoc add.left_commute)
qed

lemma fieldOccurrences_Cons:
  "fieldOccurrences (t # ts) = map (\<lambda>f. (table_name t, f)) (table_fields t) @ fieldOccurrences ts"
  by (simp add: fieldOccurrences_def)

lemma declaredRelationships_Cons:
  "declaredRelationships (t # ts) =
     concat (map (\<lambda>f. relationshipOf (table_name t, f)) (table_fields t)) @ declaredRelationships ts"
  by (simp add: declaredRelationships_def fieldOccurrences_Cons comp_def)

lemma inferTables_result:
  assumes "inferTables tm tv ts rels = (ts', rels')"
  shows "mset rels' + mset (declaredRelationships ts) = mset rels + mset (declaredRelationships ts') \<and>
         map table_name ts' = map table_name ts \<and>
         map (map field_name \<circ> table_fields) ts' = map (map field_name \<circ> table_fields) ts"
  using assms
proof (induction ts arbitrary: rels ts' rels')
  case Nil
  then show ?case by (simp add: declaredRelationships_def fieldOccurrences_def)
next
  case (Cons t ts)
  obtain fs1 r1 where a: "inferFields tm tv (table_name t) (table_fields t) rels = (fs1, r1)"
    by (cases "inferFields tm tv (table_name t) (table_fields t) rels")
  obtain ts2 r2 where b: "inferTables tm tv ts r1 = (ts2, r2)"
    by (cases "inferTables tm tv ts r1")
  from Cons.prems a b have e: "ts' = t\<lparr>table_fields := fs1\<rparr> # ts2" "rels' = r2" by simp_all
  from inferFields_result [OF a] Cons.IH [OF b] show ?case
    unfolding e declaredRelationships_Cons
    by simp (metis (no_types, lifting) add.assoc add.left_commute)
qed

lemma parseColumns_relationships:
  assumes "parseColumns cols = Inr (fs, crs)"
  shows "map (\<lambda>(ff, tt, tf). \<lparr>fromTable = tn, fromField = ff, toTable = tt, toField = tf\<rparr>) crs =
         concat (map (\<lambda>f. relationshipOf (tn, f)) fs)"
  using assms
proof (induction cols arbitrary: fs crs)
  case Nil
  then show ?case by simp
next
  case (Cons c cols)
  show ?case
  proof (cases "parseColumnDefinition (trim c)")
    case (Inl e)
    with Cons.prems show ?thesis by simp
  next
    case (Inr r)
    show ?thesis
    proof (cases r)
      case None
      with Inr Cons.prems Cons.IH show ?thesis by simp
    next
      case (Some f)
      with Inr Cons.prems obtain fs0 crs0 where
        rest: "parseColumns cols = Inr (fs0, crs0)" and
        fs: "fs = f # fs0" and
        crs: "crs = (case foreignKey f of None \<Rightarrow> crs0
                     | Some fk \<Rightarrow> (field_name f, fk_table fk, fk_column fk) # crs0)"
        by (auto split: sum.splits)
      from Cons.IH [OF rest] show ?thesis
        unfolding fs crs by (cases "foreignKey f") (simp_all add: relationshipOf_def)
    qed
  qed
qed

lemma parseMatches_relationships:
  assumes "parseMatches ms = Inr (tbls, rels)"
  shows "rels = declaredRelationships tbls"
  using assms
proof (induction ms arbitrary: tbls rels)
  case Nil
  then show ?case by (simp add: declaredRelationships_def fieldOccurrences_def)
next
  case (Cons m ms)
  obtain m1 m2 where m: "m = (m1, m2)" by (cases m)
  from Cons.prems obtain fs crs tbls0 rels0 where
    cols: "parseColumns (splitColumnDefinitions m2) = Inr (fs, crs)" and
    rest: "parseMatches ms = Inr (tbls0, rels0)" and
    tbls: "tbls = \<lparr>table_name = toLowerCase m1, table_fields = fs\<rparr> # tbls0" and
    rels: "rels = map (\<lambda>(ff, tt, tf). \<lparr>fromTable = toLowerCase m1, fromField = ff,
                                          toTable = tt, toField = tf\<rparr>) crs @ rels0"
    by (auto simp: m parseColumnDefinitions_def split: sum.splits)
  from parseColumns_relationships [OF cols] Cons.IH [OF rest] show ?case
    unfolding tbls rels declaredRelationships_Cons by simp
qed

lemma parseSQL_relationships:
  assumes "parseSQL sql = Inr sch"
  shows "mset (relationships sch) = mset (declaredRelationships (tables sch))"
proof -
  from assms obtain tbls rels where
    pm: "parseMatches (execAll (cleanSQL sql)) = Inr (tbls, rels)" and
    sch: "sch = detectImplicitRelationships tbls rels"
    by (auto simp: parseSQL_def split: sum.splits)
  obtain tm tv where bm: "buildMaps tbls [] [] = (tm, tv)"
    by (cases "buildMaps tbls [] []")
  obtain tbls' rels' where it: "inferTables tm tv tbls rels = (tbls', rels')"
    by (cases "inferTables tm tv tbls rels")
  have s: "sch = \<lparr>tables = tbls', relationships = rels'\<rparr>"
    by (simp add: sch detectImplicitRelationships_def bm it)
  from inferTables_result [OF it] parseMatches_relationships [OF pm]
  show ?thesis by (simp add: s)
qed

lemma filter_unique:
  assumes "distinct (map key xs)" and "x \<in> set xs" and "P x"
    and "\<And>y. y \<in> set xs \<Longrightarrow> P y \<Longrightarrow> key y = key x"
  shows "filter P xs = [x]"
proof -
  from assms(2) obtain ys zs where xs: "xs = ys @ x # zs"
    by (auto dest: split_list)
  from assms(1) have nk: "key x \<notin> key ` (set ys \<union> set zs)"
    unfolding xs by auto
  have no: "\<not> P y" if y: "y \<in> set ys \<union> set zs" for y
  proof
    assume "P y"
    moreover from y have "y \<in> set xs" unfolding xs by auto
    ultimately have "key y = key x" by (rule assms(4) [rotated])
    moreover from y have "key y \<in> key ` (set ys \<union> set zs)" by (rule imageI)
    ultimately show False using nk by simp
  qed
  have "filter P ys = []" "filter P zs = []"
    using no by (simp_all add: filter_empty_conv)
  with assms(3) show ?thesis unfolding xs by simp
qed

lemma distinct_occurrences:
  assumes "distinct (map table_name ts)"
    and "\<forall>t \<in> set ts. distinct (map field_name (table_fields t))"
  shows "distinct (map occKey (fieldOccurrences ts))"
  using assms
proof (induction ts)
  case Nil
  show ?case by (simp add: fieldOccurrences_def)
next
  case (Cons t ts)
  have here: "map occKey (map (\<lambda>f. (table_name t, f)) (table_fields t)) =
              map (\<lambda>n. (table_name t, n)) (map field_name (table_fields t))"
    by (simp add: occKey_def comp_def)
  have d1: "distinct (map occKey (map (\<lambda>f. (table_name t, f)) (table_fields t)))"
    unfolding here using Cons.prems(2) by (simp add: distinct_map inj_on_def)
  have d2: "distinct (map occKey (fieldOccurrences ts))"
    using Cons by simp
  have fsts: "fst ` set (fieldOccurrences ts) \<subseteq> table_name ` set ts"
    by (auto simp: fieldOccurrences_def)
  have disj: "set (map occKey (map (\<lambda>f. (table_name t, f)) (table_fields t))) \<inter>
              set (map occKey (fieldOccurrences ts)) = {}"
  proof (rule ccontr)
    assume "\<not> ?thesis"
    then obtain k where k1: "k \<in> set (map occKey (map (\<lambda>f. (table_name t, f)) (table_fields t)))"
      and k2: "k \<in> set (map occKey (fieldOccurrences ts))" by blast
    from k1 have "fst k = table_name t" by (auto simp: occKey_def)
    moreover from k2 fsts have "fst k \<in> table_name ` set ts" by (auto simp: occKey_def)
    ultimately show False using Cons.prems(1) by auto
  qed
  show ?case
    unfolding fieldOccurrences_Cons map_append using d1 d2 disj by simp
qed

lemma relationshipOf_matches:
  "r \<in> set (relationshipOf tf) \<longleftrightarrow> matches r tf"
  by (cases "foreignKey (snd tf)") (auto simp: relationshipOf_def matches_def)

lemma relationshipOf_singleton:
  "relationshipOf tf = [r] \<longleftrightarrow> matches r tf"
  by (cases "foreignKey (snd tf)") (auto simp: relationshipOf_def matches_def)

lemma matches_key: "matches r tf \<Longrightarrow> occKey tf = (fromTable r, fromField r)"
  by (simp add: matches_def occKey_def)

lemma count_declared:
  "length (filter (\<lambda>r. r = R) (concat (map relationshipOf occs))) =
   length (filter (\<lambda>tf. matches R tf) occs)"
proof (induction occs)
  case Nil
  show ?case by simp
next
  case (Cons tf occs)
  have "length (filter (\<lambda>r. r = R) (relationshipOf tf)) = (if matches R tf then 1 else 0)"
    by (cases "foreignKey (snd tf)") (auto simp: relationshipOf_def matches_def)
  with Cons show ?case by simp
qed

lemma length_filter_eq_count:
  "length (filter (\<lambda>r. r = R) xs) = count (mset xs) R"
  by (induction xs) auto

lemma consistent_from_distinct:
  assumes ms: "mset (relationships sch) = mset (declaredRelationships (tables sch))"
    and dn: "distinctNames sch"
  shows "consistent sch"
proof -
  let ?occs = "fieldOccurrences (tables sch)"
  have d: "distinct (map occKey ?occs)"
    using dn by (intro distinct_occurrences) (simp_all add: distinctNames_def list_all_iff)
  have one: "filter (matches r) ?occs = [tf]" if "tf \<in> set ?occs" "matches r tf" for r tf
    using d that
  proof (rule filter_unique)
    fix y assume "matches r y"
    with that(2) show "occKey y = occKey tf" by (simp add: matches_key)
  qed
  have A: "length (matchingFields sch r) = 1" if "r \<in> set (relationships sch)" for r
  proof -
    from that ms have "r \<in> set (declaredRelationships (tables sch))"
      by (metis set_mset_mset)
    then obtain tf where tf: "tf \<in> set ?occs" "matches r tf"
      by (auto simp: declaredRelationships_def relationshipOf_matches)
    from one [OF tf] show ?thesis by (simp add: matchingFields_def)
  qed
  have B: "length (matchingRelationships sch tf) = 1"
    if tf: "tf \<in> set ?occs" and fk: "foreignKey (snd tf) \<noteq> None" for tf
  proof -
    from fk obtain R where R: "relationshipOf tf = [R]"
      by (auto simp: relationshipOf_def)
    then have mR: "matches R tf" by (simp add: relationshipOf_singleton)
    have "(\<lambda>r. matches r tf) = (\<lambda>r. r = R)"
    proof (intro ext iffI)
      fix r assume "matches r tf"
      then have "relationshipOf tf = [r]" by (simp add: relationshipOf_singleton)
      with R show "r = R" by simp
    next
      fix r assume "r = R"
      with mR show "matches r tf" by simp
    qed
    then have "length (matchingRelationships sch tf) =
               length (filter (\<lambda>r. r = R) (relationships sch))"
      by (simp add: matchingRelationships_def)
    also have "\<dots> = count (mset (relationships sch)) R"
      by (rule length_filter_eq_count)
    also have "\<dots> = length (filter (\<lambda>r. r = R) (declaredRelationships (tables sch)))"
      unfolding ms by (rule length_filter_eq_count [symmetric])
    also have "\<dots> = length (filter (matches R) ?occs)"
      unfolding declaredRelationships_def by (rule count_declared)
    also have "\<dots> = 1"
      using one [OF tf mR] by simp
    finally show ?thesis .
  qed
  show ?thesis
    unfolding consistent_def list_all_iff using A B by auto
qed

subsection \<open>Providers the table does not know\<close>

lemma unknown_provider_falls_back:
  assumes "syntaxLookup provider = None"
  shows "getSyntaxConfig provider = Config postgresqlConfig \<and>
         getSyntaxConfig provider = getSyntaxConfig ''postgresql'' \<and>
         mapDataType genericType provider optLength = mapDataType genericType ''postgresql'' optLength \<and>
         exportSchemaAsSQL provider diagramData = exportSchemaAsSQL ''postgresql'' diagramData"
proof -
  have pg: "getSyntaxConfig ''postgresql'' = Config postgresqlConfig"
    by (simp add: getSyntaxConfig_def syntaxLookup_def DATABASE_SYNTAX_def)
  have cfg: "getSyntaxConfig provider = getSyntaxConfig ''postgresql''"
    by (simp add: getSyntaxConfig_def assms pg [unfolded getSyntaxConfig_def])
  have m: "mapDataType t provider l = mapDataType t ''postgresql'' l" for t l
    by (simp only: mapDataType_def cfg)
  have f: "fieldDefinition provider = fieldDefinition ''postgresql''"
    by (intro ext) (simp only: fieldDefinition_def cfg m)
  have "createStatement provider = createStatement ''postgresql''"
    by (intro ext) (simp only: createStatement_def f)
  then have "exportSchemaAsSQL provider diagramData = exportSchemaAsSQL ''postgresql'' diagramData"
    by (simp only: exportSchemaAsSQL_def)
  with pg cfg m show ?thesis by simp
qed

lemma undeclared_provider_not_inherited:
  "provider \<notin> set (map fst DATABASE_SYNTAX) \<Longrightarrow> provider \<notin> set inheritedNames \<Longrightarrow>
   syntaxLookup provider = None"
proof -
  assume "provider \<notin> set (map fst DATABASE_SYNTAX)" and i: "provider \<notin> set inheritedNames"
  then have "map_of DATABASE_SYNTAX provider = None"
    by (simp add: map_of_eq_None_iff)
  with i show ?thesis by (simp add: syntaxLookup_def)
qed

section \<open>The properties\<close>

text \<open>
  C1 (round-trip stability). The claim: exporting a schema, parsing the SQL and
  exporting again gives the same SQL, for each dialect. The code does not do this:
  the generator writes \<open>CREATE TABLE IF NOT EXISTS name (\<close>, and the parser's
  pattern wants the name right after \<open>CREATE TABLE\<close>, so it takes \<open>IF\<close> for the name,
  finds \<open>NOT\<close> where the parenthesis should be and matches nothing. For the schema
  with the one table \<open>users\<close> the export is not empty, its parse has no table, and
  the second export is the empty string, in all three dialects.
\<close>

theorem round_trip_loses_every_table:
  "exportSchemaAsSQL ''postgresql'' usersDiagram =
     Inr ''CREATE TABLE IF NOT EXISTS users (\<newline>    id SERIAL PRIMARY KEY\<newline>);'' \<and>
   parseSQL ''CREATE TABLE IF NOT EXISTS users (\<newline>    id SERIAL PRIMARY KEY\<newline>);'' =
     Inr \<lparr>tables = [], relationships = []\<rparr> \<and>
   exportParseExport ''postgresql'' usersDiagram = Inr [] \<and>
   exportSchemaAsSQL ''mysql'' usersDiagram =
     Inr ''CREATE TABLE IF NOT EXISTS users (\<newline>    id INT AUTO_INCREMENT PRIMARY KEY\<newline>);'' \<and>
   exportParseExport ''mysql'' usersDiagram = Inr [] \<and>
   exportSchemaAsSQL ''sqlite'' usersDiagram =
     Inr ''CREATE TABLE IF NOT EXISTS users (\<newline>    id INTEGER PRIMARY KEY AUTOINCREMENT\<newline>);'' \<and>
   exportParseExport ''sqlite'' usersDiagram = Inr []"
  by code_simp

text \<open>
  C2 (end-to-end scenario). The two statements parse to the tables \<open>users\<close> and
  \<open>posts\<close> and to the one inferred relationship from \<open>posts.user_id\<close> to
  \<open>users.id\<close>; the export for \<open>sqlite\<close> has the column
  \<open>user_id INTEGER REFERENCES users(id)\<close>, indented by four spaces, with no
  \<open>NOT NULL\<close>.
\<close>

theorem end_to_end_scenario:
  "parseSQL ''CREATE TABLE users (id SERIAL PRIMARY KEY, email TEXT NOT NULL); CREATE TABLE posts (id SERIAL PRIMARY KEY, user_id INTEGER, title TEXT);'' =
     Inr \<lparr>tables =
        [\<lparr>table_name = ''users'',
            table_fields =
              [\<lparr>field_name = ''id'', field_type = ''int8'', nullable = True,
                  primaryKey = True, foreignKey = None, defaultValue = None\<rparr>,
               \<lparr>field_name = ''email'', field_type = ''text'', nullable = False,
                  primaryKey = False, foreignKey = None, defaultValue = None\<rparr>]\<rparr>,
         \<lparr>table_name = ''posts'',
            table_fields =
              [\<lparr>field_name = ''id'', field_type = ''int8'', nullable = True,
                  primaryKey = True, foreignKey = None, defaultValue = None\<rparr>,
               \<lparr>field_name = ''user_id'', field_type = ''int8'', nullable = True,
                  primaryKey = False,
                  foreignKey = Some \<lparr>fk_table = ''users'', fk_column = ''id''\<rparr>,
                  defaultValue = None\<rparr>,
               \<lparr>field_name = ''title'', field_type = ''text'', nullable = True,
                  primaryKey = False, foreignKey = None, defaultValue = None\<rparr>]\<rparr>],
        relationships =
          [\<lparr>fromTable = ''posts'', fromField = ''user_id'', toTable = ''users'', toField = ''id''\<rparr>]\<rparr> \<and>
   parseAndExport ''sqlite'' ''CREATE TABLE users (id SERIAL PRIMARY KEY, email TEXT NOT NULL); CREATE TABLE posts (id SERIAL PRIMARY KEY, user_id INTEGER, title TEXT);'' =
     Inr ''CREATE TABLE IF NOT EXISTS users (\<newline>    id INTEGER PRIMARY KEY AUTOINCREMENT,\<newline>    email TEXT NOT NULL\<newline>);\<newline>\<newline>CREATE TABLE IF NOT EXISTS posts (\<newline>    id INTEGER PRIMARY KEY AUTOINCREMENT,\<newline>    user_id INTEGER REFERENCES users(id),\<newline>    title TEXT\<newline>);''"
  by code_simp

text \<open>
  C3 (auto-increment primary key). The claim: a clause whose raw type is SERIAL or
  BIGSERIAL gives \<open>primaryKey = true\<close> and \<open>nullable = false\<close> without any
  PRIMARY KEY or NOT NULL text. The code compares the normalized type, which is
  \<open>int8\<close> for both, with \<open>SERIAL\<close> and \<open>BIGSERIAL\<close>, so the branch is never
  taken: the clause \<open>id SERIAL\<close> gives a nullable field that is no primary key.
\<close>

theorem serial_without_primary_key_text:
  "parseColumnDefinition ''id SERIAL'' =
     Inr (Some \<lparr>field_name = ''id'', field_type = ''int8'', nullable = True,
                primaryKey = False, foreignKey = None, defaultValue = None\<rparr>) \<and>
   rawType ''id SERIAL'' = ''SERIAL''"
  by code_simp

text \<open>
  C4 (relationships and foreign keys), as the code has it: in a schema returned
  by parseSQL whose table names are distinct and whose field names are distinct
  within each table, every relationship is matched by exactly one field (of the
  table \<open>fromTable\<close>, named \<open>fromField\<close>, with the foreign key \<open>toTable\<close>,
  \<open>toField\<close>), and every field with a foreign key is matched by exactly one
  relationship.
\<close>

theorem relationships_match_foreign_keys:
  assumes "parseSQL sql = Inr sch" and "distinctNames sch"
  shows "consistent sch"
  using parseSQL_relationships [OF assms(1)] assms(2) by (rule consistent_from_distinct)

theorem relationships_match_foreign_keys_witness:
  "parseSQL ''CREATE TABLE a (id INT PRIMARY KEY); CREATE TABLE b (a_id INT, c INT REFERENCES a(id));'' =
     Inr \<lparr>tables =
        [\<lparr>table_name = ''a'',
          table_fields =
            [\<lparr>field_name = ''id'', field_type = ''int8'', nullable = True, primaryKey = True,
              foreignKey = None, defaultValue = None\<rparr>]\<rparr>,
         \<lparr>table_name = ''b'',
          table_fields =
            [\<lparr>field_name = ''a_id'', field_type = ''int8'', nullable = True, primaryKey = False,
              foreignKey = Some \<lparr>fk_table = ''a'', fk_column = ''id''\<rparr>, defaultValue = None\<rparr>,
             \<lparr>field_name = ''c'', field_type = ''int8'', nullable = True, primaryKey = False,
              foreignKey = Some \<lparr>fk_table = ''a'', fk_column = ''id''\<rparr>, defaultValue = None\<rparr>]\<rparr>],
        relationships =
          [\<lparr>fromTable = ''b'', fromField = ''c'', toTable = ''a'', toField = ''id''\<rparr>,
           \<lparr>fromTable = ''b'', fromField = ''a_id'', toTable = ''a'', toField = ''id''\<rparr>]\<rparr> \<and>
   consistent
     \<lparr>tables =
        [\<lparr>table_name = ''a'',
          table_fields =
            [\<lparr>field_name = ''id'', field_type = ''int8'', nullable = True, primaryKey = True,
              foreignKey = None, defaultValue = None\<rparr>]\<rparr>,
         \<lparr>table_name = ''b'',
          table_fields =
            [\<lparr>field_name = ''a_id'', field_type = ''int8'', nullable = True, primaryKey = False,
              foreignKey = Some \<lparr>fk_table = ''a'', fk_column = ''id''\<rparr>, defaultValue = None\<rparr>,
             \<lparr>field_name = ''c'', field_type = ''int8'', nullable = True, primaryKey = False,
              foreignKey = Some \<lparr>fk_table = ''a'', fk_column = ''id''\<rparr>, defaultValue = None\<rparr>]\<rparr>],
        relationships =
          [\<lparr>fromTable = ''b'', fromField = ''c'', toTable = ''a'', toField = ''id''\<rparr>,
           \<lparr>fromTable = ''b'', fromField = ''a_id'', toTable = ''a'', toField = ''id''\<rparr>]\<rparr>"
  (is "parseSQL ?sql = Inr ?sch \<and> _")
proof -
  have p: "parseSQL ?sql = Inr ?sch" by code_simp
  have d: "distinctNames ?sch" by code_simp
  from relationships_match_foreign_keys [OF p d] p show ?thesis by simp
qed

text \<open>
  The claim C4 as it is written fails for a text that declares a column twice: both
  fields are kept and each adds its relationship, so the relationship is matched
  by two fields.
\<close>

theorem duplicate_columns_match_twice:
  "parseSQL ''CREATE TABLE a (x INT REFERENCES b(id), x INT REFERENCES b(id));'' =
     Inr \<lparr>tables =
        [\<lparr>table_name = ''a'',
          table_fields =
            [\<lparr>field_name = ''x'', field_type = ''int8'', nullable = True, primaryKey = False,
              foreignKey = Some \<lparr>fk_table = ''b'', fk_column = ''id''\<rparr>, defaultValue = None\<rparr>,
             \<lparr>field_name = ''x'', field_type = ''int8'', nullable = True, primaryKey = False,
              foreignKey = Some \<lparr>fk_table = ''b'', fk_column = ''id''\<rparr>, defaultValue = None\<rparr>]\<rparr>],
        relationships =
          [\<lparr>fromTable = ''a'', fromField = ''x'', toTable = ''b'', toField = ''id''\<rparr>,
           \<lparr>fromTable = ''a'', fromField = ''x'', toTable = ''b'', toField = ''id''\<rparr>]\<rparr> \<and>
   length (matchingFields
     \<lparr>tables =
        [\<lparr>table_name = ''a'',
          table_fields =
            [\<lparr>field_name = ''x'', field_type = ''int8'', nullable = True, primaryKey = False,
              foreignKey = Some \<lparr>fk_table = ''b'', fk_column = ''id''\<rparr>, defaultValue = None\<rparr>,
             \<lparr>field_name = ''x'', field_type = ''int8'', nullable = True, primaryKey = False,
              foreignKey = Some \<lparr>fk_table = ''b'', fk_column = ''id''\<rparr>, defaultValue = None\<rparr>]\<rparr>],
        relationships =
          [\<lparr>fromTable = ''a'', fromField = ''x'', toTable = ''b'', toField = ''id''\<rparr>,
           \<lparr>fromTable = ''a'', fromField = ''x'', toTable = ''b'', toField = ''id''\<rparr>]\<rparr>
     \<lparr>fromTable = ''a'', fromField = ''x'', toTable = ''b'', toField = ''id''\<rparr>) = 2 \<and>
   \<not> consistent
     \<lparr>tables =
        [\<lparr>table_name = ''a'',
          table_fields =
            [\<lparr>field_name = ''x'', field_type = ''int8'', nullable = True, primaryKey = False,
              foreignKey = Some \<lparr>fk_table = ''b'', fk_column = ''id''\<rparr>, defaultValue = None\<rparr>,
             \<lparr>field_name = ''x'', field_type = ''int8'', nullable = True, primaryKey = False,
              foreignKey = Some \<lparr>fk_table = ''b'', fk_column = ''id''\<rparr>, defaultValue = None\<rparr>]\<rparr>],
        relationships =
          [\<lparr>fromTable = ''a'', fromField = ''x'', toTable = ''b'', toField = ''id''\<rparr>,
           \<lparr>fromTable = ''a'', fromField = ''x'', toTable = ''b'', toField = ''id''\<rparr>]\<rparr>"
  by code_simp

text \<open>
  C5 (primary key and nullable), as the code has it: for a clause whose raw type is
  neither SERIAL nor BIGSERIAL, \<open>nullable\<close> is false exactly when the upper-cased
  clause contains \<open>NOT NULL\<close>, and \<open>primaryKey\<close> is true exactly when it contains
  \<open>PRIMARY KEY\<close>; being a primary key does not change \<open>nullable\<close>.
\<close>

theorem nullable_follows_not_null_only:
  assumes "parseColumnDefinition columnDef = Inr (Some f)"
    and "rawType columnDef \<noteq> ''SERIAL''" and "rawType columnDef \<noteq> ''BIGSERIAL''"
  shows "nullable f = (\<not> includesStr (toUpperCase columnDef) ''NOT NULL'') \<and>
         primaryKey f = includesStr (toUpperCase columnDef) ''PRIMARY KEY''"
  using parseColumnDefinition_field(1,2) [OF assms(1)] by simp

theorem nullable_follows_not_null_only_witness:
  "parseColumnDefinition ''id INT PRIMARY KEY'' =
     Inr (Some \<lparr>field_name = ''id'', field_type = ''int8'', nullable = True,
                primaryKey = True, foreignKey = None, defaultValue = None\<rparr>) \<and>
   rawType ''id INT PRIMARY KEY'' \<noteq> ''SERIAL'' \<and> rawType ''id INT PRIMARY KEY'' \<noteq> ''BIGSERIAL'' \<and>
   \<not> includesStr (toUpperCase ''id INT PRIMARY KEY'') ''NOT NULL'' \<and>
   includesStr (toUpperCase ''id INT PRIMARY KEY'') ''PRIMARY KEY''"
proof -
  have p: "parseColumnDefinition ''id INT PRIMARY KEY'' =
     Inr (Some \<lparr>field_name = ''id'', field_type = ''int8'', nullable = True,
                primaryKey = True, foreignKey = None, defaultValue = None\<rparr>)"
    by code_simp
  have r1: "rawType ''id INT PRIMARY KEY'' \<noteq> ''SERIAL''" by code_simp
  have r2: "rawType ''id INT PRIMARY KEY'' \<noteq> ''BIGSERIAL''" by code_simp
  from nullable_follows_not_null_only [OF p r1 r2] p r1 r2 show ?thesis by simp
qed

text \<open>
  The claim C5 as it is written fails: a column declared \<open>INT PRIMARY KEY\<close> is
  parsed as a primary key that is nullable.
\<close>

theorem primary_key_leaves_nullable:
  "parseSQL ''CREATE TABLE t (id INT PRIMARY KEY);'' =
     Inr \<lparr>tables =
            [\<lparr>table_name = ''t'',
              table_fields = [\<lparr>field_name = ''id'', field_type = ''int8'', nullable = True,
                               primaryKey = True, foreignKey = None, defaultValue = None\<rparr>]\<rparr>],
          relationships = []\<rparr>"
  by code_simp




text \<open>
  C7 (comma splitting). The claim: a comma inside parentheses never splits, and
  the number of clauses is the number of column or constraint definitions between
  the commas at depth 0. The code meets it where every such segment holds a
  definition (\<open>splitLoop_segments\<close>), and misses it where one is blank: a comma at
  depth 0 met while the clause so far is blank fails the check
  \<open>if (current.trim())\<close>, the \<open>continue\<close> inside it is not reached, and the comma is
  appended to the clause like any other character. The body \<open>a,,,b\<close>, with two
  definitions in four segments, is split into three clauses, one of them a lone
  comma; and the body \<open>a INT,, b INT\<close> loses its column \<open>b\<close> for a field named
  with a comma.
\<close>

theorem blank_segments_split_differently:
  "splitColumnDefinitions ''a,,,b'' = [''a'', '','', ''b''] \<and>
   spec_topLevelSegments ''a,,,b'' = [''a'', [], [], ''b''] \<and>
   splitColumnDefinitions ''a INT,, b INT'' = [''a INT'', '', b INT''] \<and>
   spec_topLevelSegments ''a INT,, b INT'' = [''a INT'', [], '' b INT''] \<and>
   parseColumnDefinitions ''a INT,, b INT'' =
     Inr ([\<lparr>field_name = ''a'', field_type = ''int8'', nullable = True, primaryKey = False,
             foreignKey = None, defaultValue = None\<rparr>,
           \<lparr>field_name = '','', field_type = ''text'', nullable = True, primaryKey = False,
             foreignKey = None, defaultValue = None\<rparr>], [])"
  by code_simp




text \<open>
  C9 (unknown dialect). The claim: for every identifier that is no key of
  \<open>DATABASE_SYNTAX\<close>, getSyntaxConfig returns the configuration of \<open>postgresql\<close>
  and nothing throws. The code does so when the lookup finds nothing
  (\<open>unknown_provider_falls_back\<close>), and misses the names every object inherits:
  \<open>constructor\<close> is no key of the table, the lookup finds the inherited function,
  \<open>if (!config)\<close> is false and the function is returned as the configuration.
  mapDataType and exportSchemaAsSQL then throw a TypeError where \<open>postgresql\<close>
  gives a result.
\<close>

theorem inherited_name_skips_the_fallback:
  "map_of DATABASE_SYNTAX ''constructor'' = None \<and>
   getSyntaxConfig ''constructor'' = Inherited \<and>
   mapDataType ''text'' ''constructor'' None = Inl TypeError \<and>
   mapDataType ''text'' ''postgresql'' None = Inr ''TEXT'' \<and>
   exportSchemaAsSQL ''constructor'' usersDiagram = Inl TypeError \<and>
   exportSchemaAsSQL ''postgresql'' usersDiagram =
     Inr ''CREATE TABLE IF NOT EXISTS users (\<newline>    id SERIAL PRIMARY KEY\<newline>);''"
proof -
  have k: "map_of DATABASE_SYNTAX ''constructor'' = None"
    by (simp add: DATABASE_SYNTAX_def)
  have g: "getSyntaxConfig ''constructor'' = Inherited"
    by (simp add: getSyntaxConfig_def syntaxLookup_def k inheritedNames_def)
  have m: "mapDataType ''text'' ''constructor'' None = Inl TypeError"
    by code_simp
  have mpg: "mapDataType ''text'' ''postgresql'' None = Inr ''TEXT''"
    by code_simp
  have e: "exportSchemaAsSQL ''constructor'' usersDiagram = Inl TypeError"
    by code_simp
  have epg: "exportSchemaAsSQL ''postgresql'' usersDiagram =
     Inr ''CREATE TABLE IF NOT EXISTS users (\<newline>    id SERIAL PRIMARY KEY\<newline>);''"
    by code_simp
  from k g m mpg e epg show ?thesis by simp
qed

text \<open>
  C10 (empty schema). With no table, exportSchemaAsSQL returns the empty string,
  whatever the provider and the relationships are.
\<close>

theorem empty_schema_exports_nothing:
  "exportSchemaAsSQL provider \<lparr>d_tables = [], d_relationships = rels\<rparr> = Inr []"
  by (simp add: exportSchemaAsSQL_def)

end
